theory Spec2Isabelle
  imports Main
begin

section \<open>Errors and the bootstrap option view\<close>

text \<open>
  The exceptions that the functions of \<^verbatim>\<open>pants/init/options_initializer.py\<close> raise or
  let through, as values. \<open>ValueError\<close>, \<open>BuildConfigurationError\<close> and
  \<open>UnknownFlagsError\<close> are raised by name in the source; \<open>UnboundLocalError\<close> is what
  Python raises when a local variable is read before any assignment to it has run;
  \<open>CollaboratorError\<close> stands for every other exception that an external collaborator
  (plugin resolver, backend loader, option parser, validator, help printer) raises.
\<close>

datatype error =
    ValueError string
  | BuildConfigurationError string
  | UnknownFlagsError "string list"
  | UnboundLocalError string
  | CollaboratorError string

text \<open>
  \<open>OptionValueContainer\<close>: the global-scope bootstrap options, with the attributes that
  the source reads. \<open>rule_threads_max\<close> is an optional integer (\<open>None\<close> when the flag is
  not given).
\<close>

record OptionValueContainer =
  rule_threads_core :: int
  rule_threads_max :: "int option"
  pants_ignore :: "string list"
  pants_workdir :: string
  pants_distdir :: string
  pants_subprocessdir :: string
  pythonpath :: "string list"
  pants_config_files :: "string list"
  pantsd_invalidation_globs :: "string list"
  pants_version :: string
  plugins :: "string list"
  backend_packages :: "string list"

section \<open>Executor arguments\<close>

text \<open>
  \<^verbatim>\<open>
  if bootstrap_options.rule_threads_core < 2:
      raise ValueError("--rule-threads-core values less than 2 are not supported.")
  rule_threads_max = (
      bootstrap_options.rule_threads_max
      if bootstrap_options.rule_threads_max
      else 4 * bootstrap_options.rule_threads_core
  )
  return bootstrap_options.rule_threads_core, rule_threads_max
  \<close>
  The conditional expression tests the truth value of \<open>rule_threads_max\<close>: \<open>None\<close> and
  \<open>0\<close> are false, every other integer is true.
\<close>

definition truthy_int_opt :: "int option \<Rightarrow> bool" where
  "truthy_int_opt v = (case v of None \<Rightarrow> False | Some n \<Rightarrow> n \<noteq> 0)"

definition compute_executor_arguments :: "OptionValueContainer \<Rightarrow> error + (int \<times> int)" where
  "compute_executor_arguments bootstrap_options =
     (if rule_threads_core bootstrap_options < 2
      then Inl (ValueError ''--rule-threads-core values less than 2 are not supported.'')
      else
        let rule_threads_max' =
          (if truthy_int_opt (rule_threads_max bootstrap_options)
           then the (rule_threads_max bootstrap_options)
           else 4 * rule_threads_core bootstrap_options)
        in Inr (rule_threads_core bootstrap_options, rule_threads_max'))"

section \<open>Strings and POSIX paths\<close>

text \<open>
  The string and \<^verbatim>\<open>os.path\<close> (posixpath) operations of the Python standard library that
  the source calls, written after the library's own code. A path is a \<open>string\<close>; the
  separator is \<open>/\<close>.
\<close>

definition startswith :: "string \<Rightarrow> string \<Rightarrow> bool" where
  \<comment> \<open>\<^verbatim>\<open>s.startswith(p)\<close>\<close>
  "startswith s p = (take (length p) s = p)"

definition endswith :: "string \<Rightarrow> string \<Rightarrow> bool" where
  \<comment> \<open>\<^verbatim>\<open>s.endswith(p)\<close>\<close>
  "endswith s p = (length p \<le> length s \<and> drop (length s - length p) s = p)"

definition rstrip_sep :: "string \<Rightarrow> string" where
  \<comment> \<open>\<^verbatim>\<open>s.rstrip(os.path.sep)\<close>: every trailing separator is removed\<close>
  "rstrip_sep s = rev (dropWhile (\<lambda>c. c = CHR ''/'') (rev s))"

fun split_sep :: "string \<Rightarrow> string list" where
  \<comment> \<open>\<^verbatim>\<open>s.split("/")\<close>: the pieces between separators, empty pieces kept\<close>
  "split_sep [] = [[]]"
| "split_sep (c # cs) =
     (if c = CHR ''/'' then [] # split_sep cs
      else (case split_sep cs of [] \<Rightarrow> [[c]] | w # ws \<Rightarrow> (c # w) # ws))"

fun join_sep :: "string list \<Rightarrow> string" where
  \<comment> \<open>\<^verbatim>\<open>"/".join(comps)\<close>\<close>
  "join_sep [] = []"
| "join_sep [w] = w"
| "join_sep (w # ws) = w @ ''/'' @ join_sep ws"

definition isabs :: "string \<Rightarrow> bool" where
  "isabs s = startswith s ''/''"

definition join2 :: "string \<Rightarrow> string \<Rightarrow> string" where
  \<comment> \<open>one round of the loop of \<^verbatim>\<open>posixpath.join\<close>\<close>
  "join2 path b =
     (if startswith b ''/'' then b
      else if path = [] \<or> endswith path ''/'' then path @ b
      else path @ ''/'' @ b)"

definition join :: "string \<Rightarrow> string list \<Rightarrow> string" where
  \<comment> \<open>\<^verbatim>\<open>posixpath.join(a, *p)\<close>\<close>
  "join a p = foldl join2 a p"

definition normpath_step :: "nat \<Rightarrow> string list \<Rightarrow> string \<Rightarrow> string list" where
  \<comment> \<open>the body of the loop over the components in \<^verbatim>\<open>posixpath.normpath\<close>\<close>
  "normpath_step initial_slashes new_comps c =
     (if c = [] \<or> c = ''.'' then new_comps
      else if c \<noteq> ''..'' \<or> (initial_slashes = 0 \<and> new_comps = [])
              \<or> (new_comps \<noteq> [] \<and> last new_comps = ''..'')
      then new_comps @ [c]
      else if new_comps \<noteq> [] then butlast new_comps
      else new_comps)"

definition normpath :: "string \<Rightarrow> string" where
  "normpath path =
     (if path = [] then ''.''
      else
        let initial_slashes =
              (if startswith path ''/''
               then (if startswith path ''//'' \<and> \<not> startswith path ''///'' then 2 else 1)
               else 0);
            comps = foldl (normpath_step initial_slashes) [] (split_sep path);
            path' = join_sep comps;
            path'' = (if initial_slashes \<noteq> 0
                      then replicate initial_slashes CHR ''/'' @ path' else path')
        in if path'' = [] then ''.'' else path'')"

definition abspath :: "string \<Rightarrow> string \<Rightarrow> string" where
  \<comment> \<open>\<^verbatim>\<open>posixpath.abspath\<close>; \<open>cwd\<close> is what \<^verbatim>\<open>os.getcwd()\<close> returns\<close>
  "abspath cwd path = normpath (if isabs path then path else join cwd [path])"

fun commonprefix :: "string list \<Rightarrow> string list \<Rightarrow> string list" where
  \<comment> \<open>\<^verbatim>\<open>commonprefix([l1, l2])\<close> on two lists of components: their longest common prefix\<close>
  "commonprefix (x # xs) (y # ys) = (if x = y then x # commonprefix xs ys else [])"
| "commonprefix _ _ = []"

definition relpath :: "string \<Rightarrow> string \<Rightarrow> string \<Rightarrow> error + string" where
  \<comment> \<open>\<^verbatim>\<open>posixpath.relpath(path, start)\<close>: lexical, and a \<open>ValueError\<close> on the empty path\<close>
  "relpath cwd path start =
     (if path = [] then Inl (ValueError ''no path specified'')
      else
        let start_list = filter (\<lambda>x. x \<noteq> []) (split_sep (abspath cwd start));
            path_list = filter (\<lambda>x. x \<noteq> []) (split_sep (abspath cwd path));
            i = length (commonprefix start_list path_list);
            rel_list = replicate (length start_list - i) ''..'' @ drop i path_list
        in (case rel_list of [] \<Rightarrow> Inr ''.'' | c # cs \<Rightarrow> Inr (join c cs)))"

definition fast_relpath_optional :: "string \<Rightarrow> string \<Rightarrow> string option" where
  \<comment> \<open>Modelled from the spec: \<^verbatim>\<open>pants.util.dirutil.fast_relpath_optional\<close> is not among
      the sources. The spec has it compute a directory's path relative to the build root,
      with no result when the directory cannot be expressed as a descendant of the root;
      the claims have the relative path of the root itself be the empty string. This is
      the prefix-based relativization that does so: no normalization, never \<open>..\<close>.\<close>
  "fast_relpath_optional path start =
     (if length start = 0 then Some path
      else
        let pref_end = (if last start = CHR ''/'' then length start - 1 else length start)
        in if pref_end > length path then None
           else if take pref_end path \<noteq> take pref_end start
                   \<or> (length path > pref_end \<and> path ! pref_end \<noteq> CHR ''/'')
           then None
           else if length path = pref_end then Some []
           else Some (drop (pref_end + 1) path))"

section \<open>Ignore globs\<close>

text \<open>
  \<^verbatim>\<open>
  pants_ignore = list(global_options.pants_ignore)

  def add(absolute_path, include=False):
      maybe_rel_path = fast_relpath_optional(absolute_path, buildroot)
      if maybe_rel_path:
          rel_path = maybe_rel_path.rstrip(os.path.sep)
          prefix = "!" if include else ""
          pants_ignore.append(f"{prefix}/{rel_path}")

  add(global_options.pants_workdir)
  add(global_options.pants_distdir)
  add(global_options.pants_subprocessdir)
  return pants_ignore
  \<close>
  The closure \<open>add\<close> mutates the list \<open>pants_ignore\<close>: here it takes the list and returns
  the new one. The test \<^verbatim>\<open>if maybe_rel_path\<close> is false for \<open>None\<close> and for the empty
  string.
\<close>

definition truthy_str_opt :: "string option \<Rightarrow> bool" where
  "truthy_str_opt v = (case v of None \<Rightarrow> False | Some s \<Rightarrow> s \<noteq> [])"

definition add :: "string \<Rightarrow> string list \<Rightarrow> string \<Rightarrow> bool \<Rightarrow> string list" where
  "add buildroot pants_ignore' absolute_path include =
     (let maybe_rel_path = fast_relpath_optional absolute_path buildroot
      in if truthy_str_opt maybe_rel_path
         then
           let rel_path = rstrip_sep (the maybe_rel_path);
               prefix = (if include then ''!'' else [])
           in pants_ignore' @ [prefix @ ''/'' @ rel_path]
         else pants_ignore')"

definition compute_pants_ignore :: "string \<Rightarrow> OptionValueContainer \<Rightarrow> string list" where
  "compute_pants_ignore buildroot global_options =
     (let l0 = pants_ignore global_options;
          l1 = add buildroot l0 (pants_workdir global_options) False;
          l2 = add buildroot l1 (pants_distdir global_options) False;
          l3 = add buildroot l2 (pants_subprocessdir global_options) False
      in l3)"

section \<open>Invalidation globs\<close>

text \<open>
  Modelled from the spec: \<^verbatim>\<open>pants.util.ordered_set.OrderedSet\<close> is not among the sources.
  The spec has it insertion-order-deduplicating: each distinct string appears once, in
  first-seen order. It is a list without duplicates; \<open>update\<close> adds the elements of an
  iterable in order, skipping one that is already present.
\<close>

definition ordered_set_add :: "string list \<Rightarrow> string \<Rightarrow> string list" where
  "ordered_set_add s x = (if x \<in> set s then s else s @ [x])"

definition ordered_set_update :: "string list \<Rightarrow> string list \<Rightarrow> string list" where
  "ordered_set_update s xs = foldl ordered_set_add s xs"

text \<open>
  \<^verbatim>\<open>
  for glob in potentially_absolute_globs:
      glob_relpath = os.path.relpath(glob, buildroot)
      if glob_relpath == "." or glob_relpath.startswith(".."):
          logger.debug(...)
      else:
          invalidation_globs.update([glob_relpath, glob_relpath + "/**"])
  \<close>
  The loop, by recursion on the entries left, with the ordered set as accumulator. An
  exception of \<open>relpath\<close> ends the loop and the function.
\<close>

fun relativize_globs :: "string \<Rightarrow> string \<Rightarrow> string list \<Rightarrow> string list \<Rightarrow> error + string list" where
  "relativize_globs cwd buildroot invalidation_globs [] = Inr invalidation_globs"
| "relativize_globs cwd buildroot invalidation_globs (glob # globs) =
     (case relpath cwd glob buildroot of
        Inl e \<Rightarrow> Inl e
      | Inr glob_relpath \<Rightarrow>
          if glob_relpath = ''.'' \<or> startswith glob_relpath ''..''
          then relativize_globs cwd buildroot invalidation_globs globs
          else relativize_globs cwd buildroot
                 (ordered_set_update invalidation_globs [glob_relpath, glob_relpath @ ''/**''])
                 globs)"

definition fixed_globs :: "string list" where
  "fixed_globs = [''!*.pyc'', ''!__pycache__/'', ''requirements.txt'',
                  ''3rdparty/**/requirements.txt'']"

definition compute_pantsd_invalidation_globs ::
  "string \<Rightarrow> string list \<Rightarrow> string \<Rightarrow> OptionValueContainer \<Rightarrow> error + string list" where
  \<comment> \<open>\<open>cwd\<close> and \<open>sys_path\<close> are the process's working directory and \<^verbatim>\<open>sys.path\<close>\<close>
  "compute_pantsd_invalidation_globs cwd sys_path buildroot bootstrap_options =
     (let potentially_absolute_globs =
            sys_path @ pythonpath bootstrap_options @ pants_config_files bootstrap_options
      in case relativize_globs cwd buildroot [] potentially_absolute_globs of
           Inl e \<Rightarrow> Inl e
         | Inr invalidation_globs \<Rightarrow>
             Inr (ordered_set_update invalidation_globs
                    (fixed_globs @ pantsd_invalidation_globs bootstrap_options)))"

section \<open>The build configuration cache and the options assembler\<close>

text \<open>
  The values that the external collaborators produce. Only what the source reads of them
  is kept: a \<open>BuildConfiguration\<close> lists its optionables, each with the scopes it
  declares; an \<open>Options\<close> value remembers the scopes and the arguments it was parsed from.
\<close>

type_synonym ScopeInfo = string

record Optionable =
  known_scope_infos :: "ScopeInfo list"

record BuildConfiguration =
  all_optionables :: "Optionable list"

datatype WorkingSet = WorkingSet "string list"

datatype Options = Options (scopes_of: "ScopeInfo list") (args_of: "string list")

text \<open>
  \<open>OptionsBootstrapper\<close>: the raw arguments, and the global scope of the bootstrap options
  (\<^verbatim>\<open>get_bootstrap_options().for_global_scope()\<close>), which does not depend on \<open>args\<close>.
\<close>

record OptionsBootstrapper =
  args :: "string list"
  bootstrap_options :: OptionValueContainer

text \<open>
  The calls that leave the module, in the order they are made: the trace by which a
  theorem says that a call was, or was not, made.
\<close>

datatype event =
    ResolvePlugins "string list"
  | FixupNamespacePackages string
  | LoadBackendsAndPlugins "string list" "string list"
  | KnownScopeInfos
  | GetFullOptions "string list"
  | ValidateInstance
  | HelpPrinter Options "string list"

text \<open>
  The process: the class attribute \<^verbatim>\<open>BuildConfigInitializer._cached_build_config\<close>,
  \<^verbatim>\<open>sys.path\<close>, and the trace.
\<close>

record process =
  cached_build_config :: "BuildConfiguration option"
  sys_path :: "string list"
  events :: "event list"

text \<open>
  The external collaborators, each a function that returns a value or raises:
  \<^verbatim>\<open>PluginResolver(options_bootstrapper).resolve()\<close>, \<^verbatim>\<open>load_backends_and_plugins\<close> (which
  imports through the \<^verbatim>\<open>sys.path\<close> of the moment), \<^verbatim>\<open>pants_version()\<close>,
  \<^verbatim>\<open>options_bootstrapper.get_full_options\<close> and \<^verbatim>\<open>GlobalOptions.validate_instance\<close>.
\<close>

record collaborators =
  resolve :: "OptionsBootstrapper \<Rightarrow> error + WorkingSet"
  load_backends_and_plugins ::
    "string list \<Rightarrow> string list \<Rightarrow> WorkingSet \<Rightarrow> string list \<Rightarrow> error + BuildConfiguration"
  running_pants_version :: string
  get_full_options :: "OptionsBootstrapper \<Rightarrow> ScopeInfo list \<Rightarrow> error + Options"
  validate_instance :: "Options \<Rightarrow> error option"

definition emit :: "event \<Rightarrow> process \<Rightarrow> process" where
  "emit ev s = s\<lparr>events := events s @ [ev]\<rparr>"

text \<open>
  \<^verbatim>\<open>
  def __init__(self, options_bootstrapper):
      self._bootstrap_options = options_bootstrapper.get_bootstrap_options().for_global_scope()
      self._working_set = PluginResolver(options_bootstrapper).resolve()
  \<close>
\<close>

record BuildConfigInitializer =
  bci_bootstrap_options :: OptionValueContainer
  bci_working_set :: WorkingSet

definition BuildConfigInitializer_init ::
  "collaborators \<Rightarrow> OptionsBootstrapper \<Rightarrow> process \<Rightarrow> (error + BuildConfigInitializer) \<times> process" where
  "BuildConfigInitializer_init C options_bootstrapper s =
     (let s1 = emit (ResolvePlugins (plugins (bootstrap_options options_bootstrapper))) s
      in case resolve C options_bootstrapper of
           Inl e \<Rightarrow> (Inl e, s1)
         | Inr ws \<Rightarrow>
             (Inr \<lparr>bci_bootstrap_options = bootstrap_options options_bootstrapper,
                   bci_working_set = ws\<rparr>, s1))"

text \<open>
  \<^verbatim>\<open>
  for path in self._bootstrap_options.pythonpath:
      if path not in sys.path:
          sys.path.append(path)
          pkg_resources.fixup_namespace_packages(path)
  \<close>
\<close>

fun extend_sys_path :: "string list \<Rightarrow> process \<Rightarrow> process" where
  "extend_sys_path [] s = s"
| "extend_sys_path (path # paths) s =
     (if path \<notin> set (sys_path s)
      then extend_sys_path paths
             (emit (FixupNamespacePackages path) (s\<lparr>sys_path := sys_path s @ [path]\<rparr>))
      else extend_sys_path paths s)"

definition bci_setup ::
  "collaborators \<Rightarrow> BuildConfigInitializer \<Rightarrow> process \<Rightarrow> (error + BuildConfiguration) \<times> process" where
  "bci_setup C self s =
     (let s1 = extend_sys_path (pythonpath (bci_bootstrap_options self)) s;
          s2 = emit (LoadBackendsAndPlugins (plugins (bci_bootstrap_options self))
                       (backend_packages (bci_bootstrap_options self))) s1
      in (load_backends_and_plugins C (sys_path s1)
            (plugins (bci_bootstrap_options self)) (bci_working_set self)
            (backend_packages (bci_bootstrap_options self)), s2))"

text \<open>
  \<^verbatim>\<open>
  def get(cls, options_bootstrapper):
      if cls._cached_build_config is None:
          cls._cached_build_config = cls(options_bootstrapper).setup()
      return cls._cached_build_config
  \<close>
  The assignment runs only when both the constructor and \<open>setup\<close> return.
\<close>

definition get ::
  "collaborators \<Rightarrow> OptionsBootstrapper \<Rightarrow> process \<Rightarrow> (error + BuildConfiguration) \<times> process" where
  "get C options_bootstrapper s =
     (case cached_build_config s of
        Some bc \<Rightarrow> (Inr bc, s)
      | None \<Rightarrow>
          (case BuildConfigInitializer_init C options_bootstrapper s of
             (Inl e, s1) \<Rightarrow> (Inl e, s1)
           | (Inr self, s1) \<Rightarrow>
               (case bci_setup C self s1 of
                  (Inl e, s2) \<Rightarrow> (Inl e, s2)
                | (Inr bc, s2) \<Rightarrow> (Inr bc, s2\<lparr>cached_build_config := Some bc\<rparr>))))"

definition reset :: "process \<Rightarrow> process" where
  "reset s = s\<lparr>cached_build_config := None\<rparr>"

text \<open>
  \<^verbatim>\<open>
  def create(cls, options_bootstrapper, build_configuration):
      global_bootstrap_options = options_bootstrapper.get_bootstrap_options().for_global_scope()
      if global_bootstrap_options.pants_version != pants_version():
          raise BuildConfigurationError(
              f"Version mismatch: Requested version was {global_bootstrap_options.pants_version}, "
              f"our version is {pants_version()}."
          )
      known_scope_infos = [
          si
          for optionable in build_configuration.all_optionables
          for si in optionable.known_scope_infos()
      ]
      options = options_bootstrapper.get_full_options(known_scope_infos)
      GlobalOptions.validate_instance(options.for_global_scope())
      return options
  \<close>
\<close>

definition version_mismatch_message :: "string \<Rightarrow> string \<Rightarrow> string" where
  "version_mismatch_message requested running =
     ''Version mismatch: Requested version was '' @ requested @ '', our version is ''
       @ running @ ''.''"

definition create ::
  "collaborators \<Rightarrow> OptionsBootstrapper \<Rightarrow> BuildConfiguration \<Rightarrow> process \<Rightarrow> (error + Options) \<times> process" where
  "create C options_bootstrapper build_configuration s =
     (let global_bootstrap_options = bootstrap_options options_bootstrapper
      in if pants_version global_bootstrap_options \<noteq> running_pants_version C
         then (Inl (BuildConfigurationError
                      (version_mismatch_message (pants_version global_bootstrap_options)
                         (running_pants_version C))), s)
         else
           let known_scope_infos' =
                 concat (map known_scope_infos (all_optionables build_configuration));
               s1 = emit KnownScopeInfos s;
               s2 = emit (GetFullOptions (args options_bootstrapper)) s1
           in case get_full_options C options_bootstrapper known_scope_infos' of
                Inl e \<Rightarrow> (Inl e, s2)
              | Inr options \<Rightarrow>
                  let s3 = emit ValidateInstance s2
                  in (case validate_instance C options of
                        Some e \<Rightarrow> (Inl e, s3)
                      | None \<Rightarrow> (Inr options, s3)))"

text \<open>
  \<^verbatim>\<open>
  @contextmanager
  def handle_unknown_flags(cls, options_bootstrapper, *, raise_):
      try:
          yield
      except UnknownFlagsError as err:
          build_config = BuildConfigInitializer.get(options_bootstrapper)
          no_arg_bootstrapper = dataclasses.replace(
              options_bootstrapper, args=("dummy_first_arg",)
          )
          options = cls.create(no_arg_bootstrapper, build_config)
          FlagErrorHelpPrinter(options).handle_unknown_flags(err)
          if raise_:
              raise err
  \<close>
  The context manager, applied to the outcome of the body of the \<^verbatim>\<open>with\<close> statement:
  \<open>None\<close> for a body that returned, \<open>Some e\<close> for one that raised \<open>e\<close>. Its own outcome is
  \<open>None\<close> when the \<^verbatim>\<open>with\<close> statement ends normally (the body returned, or its exception
  was swallowed) and \<open>Some e\<close> when \<open>e\<close> leaves the statement.
\<close>

definition handle_unknown_flags ::
  "collaborators \<Rightarrow> OptionsBootstrapper \<Rightarrow> bool \<Rightarrow> error option \<Rightarrow> process \<Rightarrow> error option \<times> process" where
  "handle_unknown_flags C options_bootstrapper raise' body s =
     (case body of
        None \<Rightarrow> (None, s)
      | Some (UnknownFlagsError flags) \<Rightarrow>
          (case get C options_bootstrapper s of
             (Inl e, s1) \<Rightarrow> (Some e, s1)
           | (Inr build_config, s1) \<Rightarrow>
               let no_arg_bootstrapper = options_bootstrapper\<lparr>args := [''dummy_first_arg'']\<rparr>
               in (case create C no_arg_bootstrapper build_config s1 of
                     (Inl e, s2) \<Rightarrow> (Some e, s2)
                   | (Inr options, s2) \<Rightarrow>
                       let s3 = emit (HelpPrinter options flags) s2
                       in if raise' then (Some (UnknownFlagsError flags), s3)
                          else (None, s3)))
      | Some e \<Rightarrow> (Some e, s))"

text \<open>
  \<^verbatim>\<open>
  def create_with_build_config(cls, options_bootstrapper, *, raise_):
      build_config = BuildConfigInitializer.get(options_bootstrapper)
      with OptionsInitializer.handle_unknown_flags(options_bootstrapper, raise_=raise_):
          options = OptionsInitializer.create(options_bootstrapper, build_config)
      return build_config, options
  \<close>
  The local variable \<open>options\<close> is bound only when \<open>create\<close> returns: it is an
  \<open>Options option\<close> here, and reading it unbound in the \<^verbatim>\<open>return\<close> statement raises
  \<open>UnboundLocalError\<close>.
\<close>

definition create_with_build_config ::
  "collaborators \<Rightarrow> OptionsBootstrapper \<Rightarrow> bool \<Rightarrow> process
     \<Rightarrow> (error + BuildConfiguration \<times> Options) \<times> process" where
  "create_with_build_config C options_bootstrapper raise' s =
     (case get C options_bootstrapper s of
        (Inl e, s1) \<Rightarrow> (Inl e, s1)
      | (Inr build_config, s1) \<Rightarrow>
          (case create C options_bootstrapper build_config s1 of
             (r, s2) \<Rightarrow>
               let options_var = (case r of Inl e \<Rightarrow> None | Inr v \<Rightarrow> Some v);
                   body = (case r of Inl e \<Rightarrow> Some e | Inr v \<Rightarrow> None)
               in (case handle_unknown_flags C options_bootstrapper raise' body s2 of
                     (Some e, s3) \<Rightarrow> (Inl e, s3)
                   | (None, s3) \<Rightarrow>
                       (case options_var of
                          None \<Rightarrow> (Inl (UnboundLocalError ''options''), s3)
                        | Some options \<Rightarrow> (Inr (build_config, options), s3)))))"

section \<open>Example inputs\<close>

text \<open>
  The inputs at which the theorems below are instantiated: build root \<open>/r\<close>, work directory
  \<open>/r/.work\<close>, distribution directory \<open>/outside/dist\<close>, subprocess directory
  \<open>/r/.pants.d/pids\<close>, user ignores \<open>["foo"]\<close>, two worker threads at least and no maximum.
\<close>

definition example_options :: OptionValueContainer where
  "example_options =
     \<lparr>rule_threads_core = 2, rule_threads_max = None, pants_ignore = [''foo''],
      pants_workdir = ''/r/.work'', pants_distdir = ''/outside/dist'',
      pants_subprocessdir = ''/r/.pants.d/pids'',
      pythonpath = [], pants_config_files = [], pantsd_invalidation_globs = [],
      pants_version = ''2.0.0'', plugins = [], backend_packages = []\<rparr>"

text \<open>
  A bootstrap input with one unrecognized flag, a build configuration with one optionable
  that declares the global scope, and collaborators that succeed: the option parser
  rejects every argument but the placeholder \<open>dummy_first_arg\<close>. The process starts with
  an empty cache.
\<close>

definition example_bootstrapper :: OptionsBootstrapper where
  "example_bootstrapper = \<lparr>args = [''--no-such-flag''], bootstrap_options = example_options\<rparr>"

definition example_build_configuration :: BuildConfiguration where
  "example_build_configuration = \<lparr>all_optionables = [\<lparr>known_scope_infos = [''GLOBAL'']\<rparr>]\<rparr>"

definition example_get_full_options :: "OptionsBootstrapper \<Rightarrow> ScopeInfo list \<Rightarrow> error + Options" where
  "example_get_full_options ob known =
     (case filter (\<lambda>a. a \<noteq> ''dummy_first_arg'') (args ob) of
        [] \<Rightarrow> Inr (Options known (args ob))
      | unknown # rest \<Rightarrow> Inl (UnknownFlagsError (unknown # rest)))"

definition example_collaborators :: collaborators where
  "example_collaborators =
     \<lparr>resolve = (\<lambda>ob. Inr (WorkingSet (plugins (bootstrap_options ob)))),
      load_backends_and_plugins = (\<lambda>path names ws backends. Inr example_build_configuration),
      running_pants_version = ''2.0.0'',
      get_full_options = example_get_full_options,
      validate_instance = (\<lambda>options. None)\<rparr>"

definition initial_process :: process where
  "initial_process = \<lparr>cached_build_config = None, sys_path = [''/r/src''], events = []\<rparr>"

section \<open>Properties of the executor arguments\<close>

lemma example_options_threads [simp]:
  "rule_threads_core example_options = 2"
  "rule_threads_max example_options = None"
  by (simp_all add: example_options_def)

text \<open>
  C5, as the claim states it, fails: a supplied maximum is not always returned verbatim.
  With minimum 2 and the maximum 0 supplied, the result is \<open>(2, 8)\<close> and not \<open>(2, 0)\<close>.
\<close>

theorem compute_executor_arguments_zero_max_not_verbatim:
  "compute_executor_arguments (example_options\<lparr>rule_threads_max := Some 0\<rparr>) = Inr (2, 8)
   \<and> compute_executor_arguments (example_options\<lparr>rule_threads_max := Some 0\<rparr>) \<noteq> Inr (2, 0)"
  by (simp add: compute_executor_arguments_def truthy_int_opt_def)

text \<open>
  C5, amended: \<open>compute_executor_arguments\<close> fails with the \<open>ValueError\<close> of the source for
  every minimum worker-thread count below 2; with minimum 2 and no maximum it returns
  \<open>(2, 8)\<close>, and with any minimum of at least 2 and no maximum it returns the minimum and 4
  times the minimum; for every minimum of at least 2 and a supplied maximum other than 0
  it returns the pair (minimum, maximum) verbatim.
\<close>

theorem compute_executor_arguments_cases:
  "(rule_threads_core bo < 2 \<longrightarrow>
      compute_executor_arguments bo =
        Inl (ValueError ''--rule-threads-core values less than 2 are not supported.''))
   \<and> (rule_threads_core bo = 2 \<and> rule_threads_max bo = None \<longrightarrow>
      compute_executor_arguments bo = Inr (2, 8))
   \<and> (2 \<le> rule_threads_core bo \<and> rule_threads_max bo = None \<longrightarrow>
      compute_executor_arguments bo = Inr (rule_threads_core bo, 4 * rule_threads_core bo))
   \<and> (2 \<le> rule_threads_core bo \<and> rule_threads_max bo = Some m \<and> m \<noteq> 0 \<longrightarrow>
      compute_executor_arguments bo = Inr (rule_threads_core bo, m))"
  by (simp add: compute_executor_arguments_def truthy_int_opt_def)

theorem compute_executor_arguments_cases_witness:
  "compute_executor_arguments (example_options\<lparr>rule_threads_core := 1\<rparr>) =
     Inl (ValueError ''--rule-threads-core values less than 2 are not supported.'')
   \<and> compute_executor_arguments example_options = Inr (2, 8)
   \<and> compute_executor_arguments
         (example_options\<lparr>rule_threads_core := 3, rule_threads_max := Some 10\<rparr>) = Inr (3, 10)"
  using compute_executor_arguments_cases [of "example_options\<lparr>rule_threads_core := 1\<rparr>"]
        compute_executor_arguments_cases [of example_options]
        compute_executor_arguments_cases
          [of "example_options\<lparr>rule_threads_core := 3, rule_threads_max := Some 10\<rparr>" 10]
  by simp

text \<open>
  C9: a supplied maximum of 0 is treated as if no maximum were supplied: for a minimum of
  at least 2, the result is then (minimum, 4 * minimum), as it is with no maximum. \<open>None\<close>
  and \<open>0\<close> are the only false values of an optional integer. Only a nonzero supplied
  maximum is returned unchanged.
\<close>

theorem compute_executor_arguments_falsy_max:
  "(2 \<le> rule_threads_core bo \<and> (rule_threads_max bo = Some 0 \<or> rule_threads_max bo = None) \<longrightarrow>
      compute_executor_arguments bo = Inr (rule_threads_core bo, 4 * rule_threads_core bo))
   \<and> (2 \<le> rule_threads_core bo \<and> rule_threads_max bo = Some m \<and> m \<noteq> 0 \<longrightarrow>
      compute_executor_arguments bo = Inr (rule_threads_core bo, m))"
  by (auto simp add: compute_executor_arguments_def truthy_int_opt_def)

theorem compute_executor_arguments_falsy_max_witness:
  "compute_executor_arguments
     (example_options\<lparr>rule_threads_core := 5, rule_threads_max := Some 0\<rparr>) = Inr (5, 20)
   \<and> compute_executor_arguments
     (example_options\<lparr>rule_threads_core := 5, rule_threads_max := Some 7\<rparr>) = Inr (5, 7)"
  using compute_executor_arguments_falsy_max
          [of "example_options\<lparr>rule_threads_core := 5, rule_threads_max := Some 0\<rparr>"]
        compute_executor_arguments_falsy_max
          [of "example_options\<lparr>rule_threads_core := 5, rule_threads_max := Some 7\<rparr>" 7]
  by simp

section \<open>Properties of the build configuration cache\<close>

lemma sys_path_emit [simp]: "sys_path (emit ev s) = sys_path s"
  by (simp add: emit_def)

lemma cached_emit [simp]: "cached_build_config (emit ev s) = cached_build_config s"
  by (simp add: emit_def)

lemma events_emit [simp]: "events (emit ev s) = events s @ [ev]"
  by (simp add: emit_def)

lemma sys_path_extend_sys_path_cong:
  "sys_path s = sys_path t \<Longrightarrow>
   sys_path (extend_sys_path ps s) = sys_path (extend_sys_path ps t)"
proof (induction ps arbitrary: s t)
  case Nil
  then show ?case by simp
next
  case (Cons p ps)
  show ?case
  proof (cases "p \<in> set (sys_path s)")
    case True
    with Cons.prems Cons.IH [of s t] show ?thesis by simp
  next
    case False
    have "sys_path (emit (FixupNamespacePackages p) (s\<lparr>sys_path := sys_path s @ [p]\<rparr>))
        = sys_path (emit (FixupNamespacePackages p) (t\<lparr>sys_path := sys_path t @ [p]\<rparr>))"
      using Cons.prems by simp
    from Cons.IH [OF this] False Cons.prems show ?thesis by simp
  qed
qed

lemma cached_extend_sys_path [simp]:
  "cached_build_config (extend_sys_path ps s) = cached_build_config s"
  by (induction ps arbitrary: s) auto

lemma events_extend_sys_path:
  "\<exists>r. events (extend_sys_path ps t) = events t @ r"
proof (induction ps arbitrary: t)
  case Nil
  show ?case by simp
next
  case (Cons p ps)
  show ?case
  proof (cases "p \<in> set (sys_path t)")
    case True
    with Cons.IH [of t] show ?thesis by simp
  next
    case False
    from Cons.IH [of "emit (FixupNamespacePackages p) (t\<lparr>sys_path := sys_path t @ [p]\<rparr>)"]
    obtain r where
      "events (extend_sys_path ps (emit (FixupNamespacePackages p) (t\<lparr>sys_path := sys_path t @ [p]\<rparr>)))
         = events t @ FixupNamespacePackages p # r"
      by auto
    with False show ?thesis by simp
  qed
qed

text \<open>An uncached \<open>get\<close> starts the construction: its first event is the plugin resolution.\<close>

lemma get_uncached_events:
  assumes "cached_build_config s = None"
  shows "\<exists>rest. events (snd (get C ob s)) =
           events s @ ResolvePlugins (plugins (bootstrap_options ob)) # rest"
proof (cases "resolve C ob")
  case (Inl e)
  with assms show ?thesis by (simp add: get_def BuildConfigInitializer_init_def)
next
  case (Inr ws)
  let ?s1 = "emit (ResolvePlugins (plugins (bootstrap_options ob))) s"
  from events_extend_sys_path [of "pythonpath (bootstrap_options ob)" ?s1]
  obtain r where
    "events (extend_sys_path (pythonpath (bootstrap_options ob)) ?s1) = events ?s1 @ r"
    by blast
  with assms Inr show ?thesis
    by (auto simp: get_def BuildConfigInitializer_init_def bci_setup_def Let_def
             split: sum.splits)
qed

lemma get_example:
  "get example_collaborators example_bootstrapper initial_process =
     (Inr example_build_configuration,
      \<lparr>cached_build_config = Some example_build_configuration, sys_path = [''/r/src''],
       events = [ResolvePlugins [], LoadBackendsAndPlugins [] []]\<rparr>)"
  by (simp add: get_def BuildConfigInitializer_init_def bci_setup_def emit_def
      example_collaborators_def example_bootstrapper_def example_options_def
      initial_process_def)

text \<open>
  C3: for every pair of bootstrap inputs \<open>b1\<close>, \<open>b2\<close> (and whatever the collaborators would
  do), when \<open>get b1\<close> returns a build configuration, a following \<open>get b2\<close> with no reset in
  between returns the same build configuration and leaves the whole process as it was: no
  event is added to the trace (no plugin resolution, no activation) and \<^verbatim>\<open>sys.path\<close> is
  not touched. The first call wins.
\<close>

theorem get_first_call_wins:
  "get C1 b1 s = (Inr bc, s') \<Longrightarrow> get C2 b2 s' = (Inr bc, s')"
  by (auto simp: get_def split: option.splits sum.splits prod.splits)

theorem get_first_call_wins_witness:
  "get (example_collaborators\<lparr>resolve := (\<lambda>ob. Inl (CollaboratorError ''not reached''))\<rparr>)
       (example_bootstrapper\<lparr>args := []\<rparr>)
       (snd (get example_collaborators example_bootstrapper initial_process))
   = (Inr example_build_configuration,
      \<lparr>cached_build_config = Some example_build_configuration, sys_path = [''/r/src''],
       events = [ResolvePlugins [], LoadBackendsAndPlugins [] []]\<rparr>)"
  using get_first_call_wins [OF get_example,
     of "example_collaborators\<lparr>resolve := (\<lambda>ob. Inl (CollaboratorError ''not reached''))\<rparr>"
        "example_bootstrapper\<lparr>args := []\<rparr>"]
  by (simp add: get_example)

text \<open>
  C4: on a first call of \<open>get\<close> (nothing cached), when the plugin resolver raises \<open>e\<close>, or
  the resolver returns and the activator (\<^verbatim>\<open>load_backends_and_plugins\<close>, called with the
  extended \<^verbatim>\<open>sys.path\<close>) raises \<open>e\<close>, then \<open>get\<close> raises that same \<open>e\<close>, the cache is still
  unset, and any following \<open>get\<close> starts the construction again: its first act is a new
  plugin resolution.
\<close>

theorem get_failure_leaves_cache_unset:
  assumes "cached_build_config s = None"
    and "resolve C ob = Inl e \<or>
         (\<exists>ws. resolve C ob = Inr ws \<and>
            load_backends_and_plugins C
              (sys_path (extend_sys_path (pythonpath (bootstrap_options ob)) s))
              (plugins (bootstrap_options ob)) ws (backend_packages (bootstrap_options ob))
              = Inl e)"
  shows "fst (get C ob s) = Inl e
       \<and> cached_build_config (snd (get C ob s)) = None
       \<and> (\<forall>C2 ob2. \<exists>rest. events (snd (get C2 ob2 (snd (get C ob s)))) =
             events (snd (get C ob s)) @ ResolvePlugins (plugins (bootstrap_options ob2)) # rest)"
proof -
  let ?s1 = "emit (ResolvePlugins (plugins (bootstrap_options ob))) s"
  have sp: "sys_path (extend_sys_path (pythonpath (bootstrap_options ob)) ?s1)
          = sys_path (extend_sys_path (pythonpath (bootstrap_options ob)) s)"
    by (rule sys_path_extend_sys_path_cong) simp
  have r: "fst (get C ob s) = Inl e" and c: "cached_build_config (snd (get C ob s)) = None"
    using assms sp
    by (auto simp: get_def BuildConfigInitializer_init_def bci_setup_def Let_def)
  from get_uncached_events [OF c] r c show ?thesis by blast
qed

theorem get_failure_leaves_cache_unset_witness:
  "fst (get (example_collaborators\<lparr>resolve := (\<lambda>ob. Inl (CollaboratorError ''no such plugin''))\<rparr>)
          example_bootstrapper initial_process) = Inl (CollaboratorError ''no such plugin'')
   \<and> cached_build_config
        (snd (get (example_collaborators\<lparr>resolve := (\<lambda>ob. Inl (CollaboratorError ''no such plugin''))\<rparr>)
                example_bootstrapper initial_process)) = None
   \<and> fst (get (example_collaborators
               \<lparr>load_backends_and_plugins :=
                  (\<lambda>path names ws backends. Inl (BuildConfigurationError ''duplicate alias''))\<rparr>)
          example_bootstrapper initial_process) = Inl (BuildConfigurationError ''duplicate alias'')
   \<and> cached_build_config
        (snd (get (example_collaborators
               \<lparr>load_backends_and_plugins :=
                  (\<lambda>path names ws backends. Inl (BuildConfigurationError ''duplicate alias''))\<rparr>)
                example_bootstrapper initial_process)) = None"
  using get_failure_leaves_cache_unset
          [of initial_process
              "example_collaborators\<lparr>resolve := (\<lambda>ob. Inl (CollaboratorError ''no such plugin''))\<rparr>"
              example_bootstrapper "CollaboratorError ''no such plugin''"]
        get_failure_leaves_cache_unset
          [of initial_process
              "example_collaborators
               \<lparr>load_backends_and_plugins :=
                  (\<lambda>path names ws backends. Inl (BuildConfigurationError ''duplicate alias''))\<rparr>"
              example_bootstrapper "BuildConfigurationError ''duplicate alias''"]
  by (simp add: example_collaborators_def initial_process_def)

section \<open>Properties of the options assembler\<close>

lemma get_returns_cached:
  "get C ob s = (Inr bc, s1) \<Longrightarrow> cached_build_config s1 = Some bc"
  by (auto simp: get_def split: option.splits sum.splits prod.splits)

lemma cached_create:
  "create C ob bc s = (r, s') \<Longrightarrow> cached_build_config s' = cached_build_config s"
  by (auto simp: create_def Let_def split: if_splits sum.splits option.splits)

text \<open>
  When the versions agree, \<open>create\<close> goes on to collect the scopes and to attempt the full
  parse: both events are in the trace, whatever the parse returns.
\<close>

lemma create_version_match_events:
  "pants_version (bootstrap_options ob) = running_pants_version C \<Longrightarrow>
   \<exists>rest. events (snd (create C ob bc s)) =
            events s @ KnownScopeInfos # GetFullOptions (args ob) # rest"
  by (auto simp: create_def Let_def split: sum.splits option.splits)

text \<open>
  C2: when the version declared in the bootstrap options differs from the running version,
  \<open>create\<close> fails with a \<open>BuildConfigurationError\<close> whose message names the requested and
  the running version, and the process is as it was before the call: the trace has no
  event for the collection of the scopes nor for the full parse.
\<close>

theorem create_version_mismatch:
  "pants_version (bootstrap_options ob) \<noteq> running_pants_version C \<Longrightarrow>
   create C ob bc s =
     (Inl (BuildConfigurationError
        (''Version mismatch: Requested version was '' @ pants_version (bootstrap_options ob)
          @ '', our version is '' @ running_pants_version C @ ''.'')), s)"
  by (simp add: create_def version_mismatch_message_def)

theorem create_version_mismatch_witness:
  "create (example_collaborators\<lparr>running_pants_version := ''2.1.0''\<rparr>) example_bootstrapper
      example_build_configuration initial_process =
     (Inl (BuildConfigurationError
        ''Version mismatch: Requested version was 2.0.0, our version is 2.1.0.''),
      initial_process)"
  using create_version_mismatch
    [of example_bootstrapper "example_collaborators\<lparr>running_pants_version := ''2.1.0''\<rparr>"
        example_build_configuration initial_process]
  by (simp add: example_bootstrapper_def example_options_def)

text \<open>
  C1, on the inputs of the claim: the build configuration is obtained, \<open>create\<close> raises
  \<open>UnknownFlagsError\<close>, and the second \<open>create\<close>, on the input with the placeholder argument,
  returns the clean options. Then the diagnostic is generated (the help printer's event
  ends the trace). With \<^verbatim>\<open>raise_=True\<close> the original \<open>UnknownFlagsError\<close> leaves
  \<open>create_with_build_config\<close>. With \<^verbatim>\<open>raise_=False\<close> the error is swallowed by the context
  manager, and the \<^verbatim>\<open>return build_config, options\<close> that follows reads the local variable
  \<open>options\<close>, which was never bound: the call raises \<open>UnboundLocalError\<close>. It does not
  complete without an error.
\<close>

theorem create_with_build_config_unknown_flags:
  assumes "get C ob s = (Inr bc, s1)"
    and "create C ob bc s1 = (Inl (UnknownFlagsError flags), s2)"
    and "create C (ob\<lparr>args := [''dummy_first_arg'']\<rparr>) bc s2 = (Inr clean, s3)"
  shows "create_with_build_config C ob False s =
           (Inl (UnboundLocalError ''options''), emit (HelpPrinter clean flags) s3)
       \<and> create_with_build_config C ob True s =
           (Inl (UnknownFlagsError flags), emit (HelpPrinter clean flags) s3)"
proof -
  have "cached_build_config s2 = Some bc"
    using get_returns_cached [OF assms(1)] cached_create [OF assms(2)] by simp
  then have g: "get C ob s2 = (Inr bc, s2)"
    by (simp add: get_def)
  show ?thesis
    using assms g by (simp add: create_with_build_config_def handle_unknown_flags_def)
qed

lemma create_example_unknown_flag:
  "create example_collaborators example_bootstrapper example_build_configuration
     \<lparr>cached_build_config = Some example_build_configuration, sys_path = [''/r/src''],
      events = [ResolvePlugins [], LoadBackendsAndPlugins [] []]\<rparr>
   = (Inl (UnknownFlagsError [''--no-such-flag'']),
      \<lparr>cached_build_config = Some example_build_configuration, sys_path = [''/r/src''],
       events = [ResolvePlugins [], LoadBackendsAndPlugins [] [], KnownScopeInfos,
                 GetFullOptions [''--no-such-flag'']]\<rparr>)"
  by (simp add: create_def emit_def example_collaborators_def example_bootstrapper_def
      example_options_def example_get_full_options_def)

lemma create_example_no_args:
  "create example_collaborators (example_bootstrapper\<lparr>args := [''dummy_first_arg'']\<rparr>)
     example_build_configuration
     \<lparr>cached_build_config = Some example_build_configuration, sys_path = [''/r/src''],
      events = [ResolvePlugins [], LoadBackendsAndPlugins [] [], KnownScopeInfos,
                GetFullOptions [''--no-such-flag'']]\<rparr>
   = (Inr (Options [''GLOBAL''] [''dummy_first_arg'']),
      \<lparr>cached_build_config = Some example_build_configuration, sys_path = [''/r/src''],
       events = [ResolvePlugins [], LoadBackendsAndPlugins [] [], KnownScopeInfos,
                 GetFullOptions [''--no-such-flag''], KnownScopeInfos,
                 GetFullOptions [''dummy_first_arg''], ValidateInstance]\<rparr>)"
  by (simp add: create_def emit_def example_collaborators_def example_bootstrapper_def
      example_options_def example_get_full_options_def example_build_configuration_def)

theorem create_with_build_config_unknown_flags_witness:
  "create_with_build_config example_collaborators example_bootstrapper False initial_process =
     (Inl (UnboundLocalError ''options''),
      \<lparr>cached_build_config = Some example_build_configuration, sys_path = [''/r/src''],
       events = [ResolvePlugins [], LoadBackendsAndPlugins [] [], KnownScopeInfos,
                 GetFullOptions [''--no-such-flag''], KnownScopeInfos,
                 GetFullOptions [''dummy_first_arg''], ValidateInstance,
                 HelpPrinter (Options [''GLOBAL''] [''dummy_first_arg'']) [''--no-such-flag'']]\<rparr>)
   \<and> fst (create_with_build_config example_collaborators example_bootstrapper True
            initial_process) = Inl (UnknownFlagsError [''--no-such-flag''])"
  using create_with_build_config_unknown_flags
          [OF get_example create_example_unknown_flag create_example_no_args]
  by (simp add: emit_def)

section \<open>Properties of the ignore globs\<close>

lemma example_options_lists [simp]:
  "pants_ignore example_options = [''foo'']"
  "pants_workdir example_options = ''/r/.work''"
  "pants_distdir example_options = ''/outside/dist''"
  "pants_subprocessdir example_options = ''/r/.pants.d/pids''"
  "pythonpath example_options = []"
  "pants_config_files example_options = []"
  "pantsd_invalidation_globs example_options = []"
  by (simp_all add: example_options_def)

text \<open>What one call of the closure \<open>add\<close> appends, by the outcome of the relativization.\<close>

lemma add_cases:
  "add buildroot l d False =
     l @ (case fast_relpath_optional d buildroot of
            None \<Rightarrow> []
          | Some rel \<Rightarrow> if rel = [] then [] else [''/'' @ rstrip_sep rel])"
  by (simp add: add_def truthy_str_opt_def split: option.splits)

lemma fast_relpath_optional_self: "fast_relpath_optional b b = Some []"
  by (auto simp: fast_relpath_optional_def Let_def last_conv_nth)

lemma add_self: "add b l b incl = l"
  by (simp add: add_def truthy_str_opt_def fast_relpath_optional_self)

lemma fast_relpath_optional_examples:
  "fast_relpath_optional ''/r/.work'' ''/r'' = Some ''.work''"
  "fast_relpath_optional ''/outside/dist'' ''/r'' = None"
  "fast_relpath_optional ''/r/.pants.d/pids'' ''/r'' = Some ''.pants.d/pids''"
  by (simp_all add: fast_relpath_optional_def)

lemma rstrip_sep_examples:
  "rstrip_sep ''.work'' = ''.work''"
  "rstrip_sep ''.pants.d/pids'' = ''.pants.d/pids''"
  by (simp_all add: rstrip_sep_def)

lemma dropWhile_eq_replicate:
  "\<exists>n. xs = replicate n c @ dropWhile (\<lambda>x. x = c) xs"
proof (induction xs)
  case Nil
  show ?case by simp
next
  case (Cons a xs)
  show ?case
  proof (cases "a = c")
    case True
    from Cons obtain n where "xs = replicate n c @ dropWhile (\<lambda>x. x = c) xs" by blast
    then have "a # xs = replicate (Suc n) c @ dropWhile (\<lambda>x. x = c) (a # xs)"
      using True by simp
    then show ?thesis by blast
  next
    case False
    then have "a # xs = replicate 0 c @ dropWhile (\<lambda>x. x = c) (a # xs)" by simp
    then show ?thesis by blast
  qed
qed

text \<open>
  \<open>rstrip_sep\<close> removes trailing separators and nothing else: the string is the result
  followed by separators only, and the result does not end with a separator.
\<close>

lemma rstrip_sep_spec:
  "(\<exists>n. s = rstrip_sep s @ replicate n CHR ''/'')
   \<and> (rstrip_sep s = [] \<or> last (rstrip_sep s) \<noteq> CHR ''/'')"
proof
  from dropWhile_eq_replicate [of "rev s" "CHR ''/''"]
  obtain n where "rev s = replicate n CHR ''/'' @ dropWhile (\<lambda>x. x = CHR ''/'') (rev s)"
    by blast
  then have "rev (rev s) = rev (replicate n CHR ''/'' @ dropWhile (\<lambda>x. x = CHR ''/'') (rev s))"
    by simp
  then have "s = rstrip_sep s @ replicate n CHR ''/''"
    by (simp add: rstrip_sep_def)
  then show "\<exists>n. s = rstrip_sep s @ replicate n CHR ''/''" ..
next
  show "rstrip_sep s = [] \<or> last (rstrip_sep s) \<noteq> CHR ''/''"
  proof (cases "dropWhile (\<lambda>x. x = CHR ''/'') (rev s)")
    case Nil
    then show ?thesis by (simp add: rstrip_sep_def)
  next
    case (Cons a as)
    then have "a \<noteq> CHR ''/''"
      using hd_dropWhile [of "\<lambda>x. x = CHR ''/''" "rev s"] by auto
    with Cons show ?thesis by (simp add: rstrip_sep_def)
  qed
qed

text \<open>
  C6, as the claim states it, fails: a special directory that does not lie outside the
  build root can still be left out. With build root \<open>/r\<close> and work directory \<open>/r\<close>, the
  relativization has a result (the directory is not outside the root), and yet no entry
  for the work directory follows the user entries: the list is not
  \<open>["foo", "/", "/.pants.d/pids"]\<close>.
\<close>

theorem compute_pants_ignore_root_not_outside_but_omitted:
  "fast_relpath_optional ''/r'' ''/r'' \<noteq> None
   \<and> compute_pants_ignore ''/r'' (example_options\<lparr>pants_workdir := ''/r''\<rparr>)
       = [''foo'', ''/.pants.d/pids'']
   \<and> compute_pants_ignore ''/r'' (example_options\<lparr>pants_workdir := ''/r''\<rparr>)
       \<noteq> [''foo'', ''/'', ''/.pants.d/pids'']"
  by (simp add: compute_pants_ignore_def add_cases fast_relpath_optional_examples
      rstrip_sep_examples fast_relpath_optional_self)

text \<open>
  C6, amended: for every build root, user ignore list and work, distribution and subprocess
  directory, \<open>compute_pants_ignore\<close> returns the user entries first, followed by, for each
  of the work directory, the distribution directory and the subprocess directory in that
  order, the entry \<open>/\<close> followed by its path relative to the build root with the trailing
  separators stripped, and no inclusion marker; a directory is left out when it lies
  outside the build root (no relative path) or when its relative path is empty. With build
  root \<open>/r\<close>, work directory \<open>/r/.work\<close>, distribution directory \<open>/outside/dist\<close>,
  subprocess directory \<open>/r/.pants.d/pids\<close> and user ignores \<open>["foo"]\<close> the result is
  \<open>["foo", "/.work", "/.pants.d/pids"]\<close>.
\<close>

theorem compute_pants_ignore_entries:
  "compute_pants_ignore buildroot go =
     pants_ignore go @
     concat (map (\<lambda>d. case fast_relpath_optional d buildroot of
                         None \<Rightarrow> []
                       | Some rel \<Rightarrow> if rel = [] then [] else [''/'' @ rstrip_sep rel])
                 [pants_workdir go, pants_distdir go, pants_subprocessdir go])"
  by (simp add: compute_pants_ignore_def add_cases)

theorem compute_pants_ignore_entries_witness:
  "compute_pants_ignore ''/r'' example_options = [''foo'', ''/.work'', ''/.pants.d/pids'']"
  using compute_pants_ignore_entries [of "''/r''" example_options]
  by (simp add: fast_relpath_optional_examples rstrip_sep_examples)

text \<open>
  C8: a special directory whose path is exactly the build root is skipped. Its relative
  path is the empty string, which the test \<^verbatim>\<open>if maybe_rel_path\<close> treats like \<open>None\<close>: the
  closure \<open>add\<close> leaves the list as it is, so \<open>compute_pants_ignore\<close> is what the other two
  directories alone give, whichever of the three is the build root.
\<close>

theorem compute_pants_ignore_skips_buildroot:
  "fast_relpath_optional b b = Some []
   \<and> add b l b incl = l
   \<and> (pants_workdir go = b \<longrightarrow>
        compute_pants_ignore b go =
          add b (add b (pants_ignore go) (pants_distdir go) False) (pants_subprocessdir go) False)
   \<and> (pants_distdir go = b \<longrightarrow>
        compute_pants_ignore b go =
          add b (add b (pants_ignore go) (pants_workdir go) False) (pants_subprocessdir go) False)
   \<and> (pants_subprocessdir go = b \<longrightarrow>
        compute_pants_ignore b go =
          add b (add b (pants_ignore go) (pants_workdir go) False) (pants_distdir go) False)"
  by (simp add: compute_pants_ignore_def add_self fast_relpath_optional_self)

theorem compute_pants_ignore_skips_buildroot_witness:
  "compute_pants_ignore ''/r'' (example_options\<lparr>pants_distdir := ''/r''\<rparr>)
     = [''foo'', ''/.work'', ''/.pants.d/pids'']"
  using compute_pants_ignore_skips_buildroot
          [where b = "''/r''" and go = "example_options\<lparr>pants_distdir := ''/r''\<rparr>"]
  by (simp add: add_cases fast_relpath_optional_examples rstrip_sep_examples)

section \<open>Properties of the invalidation globs\<close>

lemma split_sep_no_sep: "CHR ''/'' \<notin> set w \<Longrightarrow> split_sep w = [w]"
  by (induction w) auto

text \<open>
  A child of the build root \<open>/r\<close> whose name begins with two dots relativizes to its name,
  whatever the working directory.
\<close>

lemma relpath_dotdot_name:
  assumes "name \<noteq> []" and "CHR ''/'' \<notin> set name"
  shows "relpath cwd (''/r/..'' @ name) ''/r'' = Inr (''..'' @ name)"
  using assms
  by (simp add: relpath_def abspath_def isabs_def startswith_def normpath_def
      normpath_step_def split_sep_no_sep join_def Let_def)

lemma ordered_set_update_fixed_globs: "ordered_set_update [] fixed_globs = fixed_globs"
  by (simp add: ordered_set_update_def ordered_set_add_def fixed_globs_def)

text \<open>The ordered set never holds a string twice.\<close>

lemma distinct_ordered_set_update:
  "distinct s \<Longrightarrow> distinct (ordered_set_update s xs)"
  unfolding ordered_set_update_def
  by (induction xs arbitrary: s) (auto simp: ordered_set_add_def)

lemma distinct_relativize_globs:
  "distinct acc \<Longrightarrow> relativize_globs cwd b acc gs = Inr out \<Longrightarrow> distinct out"
proof (induction gs arbitrary: acc)
  case Nil
  then show ?case by simp
next
  case (Cons g gs)
  from Cons.prems(2) obtain rel where rel: "relpath cwd g b = Inr rel"
    by (cases "relpath cwd g b") auto
  show ?case
  proof (cases "rel = ''.'' \<or> startswith rel ''..''")
    case True
    with Cons rel show ?thesis by simp
  next
    case False
    have "distinct (ordered_set_update acc [rel, rel @ ''/**''])"
      using Cons.prems(1) by (rule distinct_ordered_set_update)
    from Cons.IH [OF this] Cons.prems(2) rel False show ?thesis by simp
  qed
qed

lemma distinct_compute_pantsd_invalidation_globs:
  "compute_pantsd_invalidation_globs cwd sp b bo = Inr out \<Longrightarrow> distinct out"
  by (auto simp: compute_pantsd_invalidation_globs_def Let_def split: sum.splits
           dest!: distinct_relativize_globs [rotated] intro: distinct_ordered_set_update)

text \<open>An empty entry ends the computation: \<open>relpath\<close> raises \<open>ValueError\<close> on it.\<close>

lemma compute_pantsd_invalidation_globs_empty_entry:
  "compute_pantsd_invalidation_globs cwd [''''] b bo = Inl (ValueError ''no path specified'')"
  by (simp add: compute_pantsd_invalidation_globs_def relpath_def)

text \<open>
  C7, at an input where the code departs from the claim: build root \<open>/r\<close>, module search
  paths \<open>/r/..vendored\<close> and \<open>/r/sub/path\<close>, config file \<open>/r/sub/path\<close>, nothing else. The
  entry \<open>/r/..vendored\<close> relativizes to \<open>..vendored\<close>, which is neither \<open>.\<close> nor a path that
  begins with a parent-directory traversal, so by the claim it contributes \<open>..vendored\<close> and
  \<open>..vendored/**\<close>. The code drops it: the result holds the two globs of \<open>sub/path\<close>, once
  each, and the fixed tail.
\<close>

theorem compute_pantsd_invalidation_globs_drops_dotdot_child:
  "compute_pantsd_invalidation_globs ''/r'' [''/r/..vendored'', ''/r/sub/path''] ''/r''
     (example_options\<lparr>pants_config_files := [''/r/sub/path'']\<rparr>)
   = Inr [''sub/path'', ''sub/path/**'', ''!*.pyc'', ''!__pycache__/'', ''requirements.txt'',
          ''3rdparty/**/requirements.txt'']"
  by (simp add: compute_pantsd_invalidation_globs_def relpath_def abspath_def isabs_def
      startswith_def normpath_def normpath_step_def join_def join2_def endswith_def Let_def
      ordered_set_update_def ordered_set_add_def fixed_globs_def)

text \<open>
  C10: the test for "outside the build root" is a test on the first two characters of the
  relativized path. Every entry whose relativized path starts with \<open>..\<close> is passed over by
  the loop, which leaves the ordered set as it is. So an entry inside the build root whose
  first component merely begins with two dots is dropped as well: for every non-empty name
  without a separator, the child \<open>/r/..name\<close> of the build root \<open>/r\<close> relativizes to
  \<open>..name\<close>, and as the only entry it leaves nothing but the fixed globs in the result.
\<close>

theorem relativize_globs_drops_dotdot_prefix:
  "(relpath cwd g b = Inr rel \<and> startswith rel ''..'' \<longrightarrow>
      relativize_globs cwd b acc (g # gs) = relativize_globs cwd b acc gs)
   \<and> (name \<noteq> [] \<and> CHR ''/'' \<notin> set name \<longrightarrow>
      relpath cwd (''/r/..'' @ name) ''/r'' = Inr (''..'' @ name)
      \<and> compute_pantsd_invalidation_globs cwd [''/r/..'' @ name] ''/r'' example_options
          = Inr fixed_globs)"
proof (intro conjI impI)
  assume "relpath cwd g b = Inr rel \<and> startswith rel ''..''"
  then show "relativize_globs cwd b acc (g # gs) = relativize_globs cwd b acc gs"
    by simp
next
  assume a: "name \<noteq> [] \<and> CHR ''/'' \<notin> set name"
  then show r: "relpath cwd (''/r/..'' @ name) ''/r'' = Inr (''..'' @ name)"
    using relpath_dotdot_name [of name cwd] by blast
  have "startswith (''..'' @ name) ''..''"
    by (simp add: startswith_def)
  with r show "compute_pantsd_invalidation_globs cwd [''/r/..'' @ name] ''/r'' example_options
          = Inr fixed_globs"
    by (simp add: compute_pantsd_invalidation_globs_def ordered_set_update_fixed_globs)
qed

theorem relativize_globs_drops_dotdot_prefix_witness:
  "relpath ''/home/user'' ''/r/..vendored'' ''/r'' = Inr ''..vendored''
   \<and> compute_pantsd_invalidation_globs ''/home/user'' [''/r/..vendored''] ''/r'' example_options
       = Inr [''!*.pyc'', ''!__pycache__/'', ''requirements.txt'',
              ''3rdparty/**/requirements.txt'']"
  using relativize_globs_drops_dotdot_prefix
          [where name = "''vendored''" and cwd = "''/home/user''"]
  by (simp add: fixed_globs_def)

end
